theory Spec2Isabelle
  imports Main
begin

section \<open>The multirepo-deploy plugin: client model\<close>

text \<open>
  The sources are the React client of the plugin (\<^verbatim>\<open>main.tsx\<close>, \<^verbatim>\<open>pages/Deploy.tsx\<close>,
  \<^verbatim>\<open>pages/RepoList.tsx\<close> and the \<^verbatim>\<open>AddRepoModal\<close> component). A JavaScript string is
  modelled as a \<^typ>\<open>string\<close>, each \<^typ>\<open>char\<close> standing for one code unit below 256; a
  value of type \<^verbatim>\<open>T | null\<close> is a \<^typ>\<open>'a option\<close>. Component state is a record, an event
  handler is a function from the state to the new state and the request it issues.
\<close>

subsection \<open>JavaScript truthiness of strings\<close>

definition truthy :: "string \<Rightarrow> bool" where
  \<comment> \<open>the empty string is the only falsy string\<close>
  "truthy s = (s \<noteq> [])"

definition truthy_opt :: "string option \<Rightarrow> bool" where
  \<comment> \<open>\<^verbatim>\<open>null\<close> is falsy as well\<close>
  "truthy_opt v = (case v of None \<Rightarrow> False | Some s \<Rightarrow> truthy s)"

definition or_default :: "string option \<Rightarrow> string \<Rightarrow> string" where
  \<comment> \<open>\<^verbatim>\<open>v || d\<close> on a nullable string\<close>
  "or_default v d = (case v of None \<Rightarrow> d | Some s \<Rightarrow> if truthy s then s else d)"

fun split_where :: "(char \<Rightarrow> bool) \<Rightarrow> string \<Rightarrow> string list" where
  \<comment> \<open>the pieces of a string between its separators, as \<^verbatim>\<open>s.split("/")\<close> gives them: one
     more piece than there are separators, empty pieces kept\<close>
  "split_where sep [] = [[]]"
| "split_where sep (c # cs) =
     (if sep c then [] # split_where sep cs
      else (case split_where sep cs of
              [] \<Rightarrow> [[c]]
            | piece # pieces \<Rightarrow> (c # piece) # pieces))"

subsection \<open>Requests and responses\<close>

datatype HttpMethod = GET | POST

record HttpRequest =
  url :: string
  http_method :: HttpMethod
  headers :: "(string \<times> string) list"
  form_data :: "(string \<times> string) list option"

text \<open>
  What \<^verbatim>\<open>await fetch(...)\<close> followed by \<^verbatim>\<open>response.json()\<close> can give: an exception with its
  message, or a response with its \<^verbatim>\<open>ok\<close> flag, its status code and the parsed body.
\<close>

datatype 'a FetchResult = Threw string | Response bool nat 'a

subsection \<open>The dialog that adds a repository\<close>

datatype Method = ssh | github

record GithubRepo =
  name :: string
  full_name :: string
  description :: string

record AddRepoModal =
  method' :: Method
  githubAvailable :: bool
  loading :: bool
  error :: "string option"
  success :: "string option"
  repoUrl :: string
  folderName :: string
  sshKeyFile :: "string option"
  githubRepos :: "GithubRepo list"
  selectedGithubRepo :: string
  loadingRepos :: bool

definition initialAddRepoModal :: AddRepoModal where
  "initialAddRepoModal =
     \<lparr>method' = ssh, githubAvailable = False, AddRepoModal.loading = False,
      AddRepoModal.error = None, AddRepoModal.success = None, repoUrl = [], folderName = [],
      sshKeyFile = None, githubRepos = [], selectedGithubRepo = [], loadingRepos = False\<rparr>"

definition checkGithubAvailability :: "bool \<Rightarrow> bool FetchResult \<Rightarrow> AddRepoModal \<Rightarrow> AddRepoModal" where
  \<comment> \<open>the body is read as its \<^verbatim>\<open>available\<close> field, whatever the status; an exception is
     only logged\<close>
  "checkGithubAvailability isOpen res st =
     (if \<not> isOpen then st
      else (case res of
              Threw msg \<Rightarrow> st
            | Response ok status available \<Rightarrow>
                if \<not> available then st\<lparr>githubAvailable := available, method' := ssh\<rparr>
                else st\<lparr>githubAvailable := available\<rparr>))"

definition githubTabDisabled :: "AddRepoModal \<Rightarrow> bool" where
  "githubTabDisabled st = (\<not> githubAvailable st)"

definition clickSshTab :: "AddRepoModal \<Rightarrow> AddRepoModal" where
  "clickSshTab st = st\<lparr>method' := ssh\<rparr>"

definition clickGithubTab :: "AddRepoModal \<Rightarrow> AddRepoModal" where
  \<comment> \<open>a disabled button fires no click\<close>
  "clickGithubTab st = (if githubTabDisabled st then st else st\<lparr>method' := github\<rparr>)"

definition fetchGithubRepos ::
  "bool \<Rightarrow> (GithubRepo list option \<times> string option) FetchResult \<Rightarrow> AddRepoModal \<Rightarrow> AddRepoModal" where
  \<comment> \<open>the body is read as its \<^verbatim>\<open>repos\<close> and \<^verbatim>\<open>error\<close> fields\<close>
  "fetchGithubRepos isOpen res st =
     (if method' st = github \<and> githubAvailable st \<and> isOpen
      then (case res of
              Threw msg \<Rightarrow>
                st\<lparr>AddRepoModal.error := Some ''Failed to fetch GitHub repositories'',
                   loadingRepos := False\<rparr>
            | Response ok status body \<Rightarrow>
                if ok
                then st\<lparr>AddRepoModal.error := None,
                        githubRepos := (case fst body of None \<Rightarrow> [] | Some rs \<Rightarrow> rs),
                        loadingRepos := False\<rparr>
                else st\<lparr>AddRepoModal.error :=
                          Some (or_default (snd body) ''Failed to fetch GitHub repositories''),
                        loadingRepos := False\<rparr>)
      else if method' st = ssh then st\<lparr>githubRepos := [], selectedGithubRepo := []\<rparr>
      else st)"

definition handleSubmit :: "AddRepoModal \<Rightarrow> AddRepoModal \<times> HttpRequest option" where
  \<comment> \<open>the key file travels as the form field \<^verbatim>\<open>ssh_key\<close>; its content stands for it here\<close>
  "handleSubmit st =
     (let st1 = st\<lparr>AddRepoModal.error := None, AddRepoModal.success := None\<rparr> in
      case method' st of
        ssh \<Rightarrow>
          (case sshKeyFile st of
             None \<Rightarrow>
               (st1\<lparr>AddRepoModal.error :=
                      Some ''Please fill in all fields and select an SSH key file''\<rparr>, None)
           | Some key \<Rightarrow>
               if \<not> truthy (repoUrl st) \<or> \<not> truthy (folderName st)
               then (st1\<lparr>AddRepoModal.error :=
                           Some ''Please fill in all fields and select an SSH key file''\<rparr>, None)
               else (st1\<lparr>AddRepoModal.loading := True\<rparr>,
                     Some \<lparr>url = ''/deployment/api/repos/add-ssh'', http_method = POST,
                           headers = [],
                           form_data = Some [(''repo_url'', repoUrl st),
                                             (''folder_name'', folderName st),
                                             (''ssh_key'', key)]\<rparr>))
      | github \<Rightarrow>
          if \<not> truthy (selectedGithubRepo st) \<or> \<not> truthy (folderName st)
          then (st1\<lparr>AddRepoModal.error :=
                      Some ''Please select a repository and enter a folder name''\<rparr>, None)
          else (st1\<lparr>AddRepoModal.loading := True\<rparr>,
                Some \<lparr>url = ''/deployment/api/repos/add-github'', http_method = POST,
                      headers = [],
                      form_data = Some [(''repo_full_name'', selectedGithubRepo st),
                                        (''folder_name'', folderName st)]\<rparr>))"

definition submitDone :: "(string option \<times> string option) FetchResult \<Rightarrow> AddRepoModal \<Rightarrow> AddRepoModal" where
  \<comment> \<open>the rest of \<^verbatim>\<open>handleSubmit\<close>, once the server has answered; the body is read as its
     \<^verbatim>\<open>success\<close> and \<^verbatim>\<open>error\<close> fields\<close>
  "submitDone res st =
     (case res of
        Threw msg \<Rightarrow> st\<lparr>AddRepoModal.error := Some msg, AddRepoModal.loading := False\<rparr>
      | Response ok status body \<Rightarrow>
          if \<not> ok
          then st\<lparr>AddRepoModal.error := Some (or_default (snd body) ''Failed to add repository''),
                  AddRepoModal.loading := False\<rparr>
          else st\<lparr>AddRepoModal.success :=
                    Some (or_default (fst body) ''Repository added successfully!''),
                  AddRepoModal.loading := False\<rparr>)"

definition handleGithubRepoSelect :: "string \<Rightarrow> AddRepoModal \<Rightarrow> AddRepoModal" where
  \<comment> \<open>\<^verbatim>\<open>fullName.split("/")[1]\<close> is undefined when the name has no slash; the folder name
     set from it is then falsy, as the empty string is\<close>
  "handleGithubRepoSelect fullName st =
     (let repoName = (case split_where (\<lambda>c. c = CHR ''/'') fullName of
                        _ # second # _ \<Rightarrow> second
                      | _ \<Rightarrow> [])
      in if \<not> truthy (folderName st)
         then st\<lparr>selectedGithubRepo := fullName, folderName := repoName\<rparr>
         else st\<lparr>selectedGithubRepo := fullName\<rparr>)"

definition handleClose :: "AddRepoModal \<Rightarrow> AddRepoModal" where
  "handleClose st =
     st\<lparr>repoUrl := [], method' := ssh, AddRepoModal.loading := False, loadingRepos := False,
        folderName := [], sshKeyFile := None, selectedGithubRepo := [], githubRepos := [],
        AddRepoModal.error := None, AddRepoModal.success := None\<rparr>"

text \<open>
  What the user and the network can do to the open dialog. Typing and selecting change
  form fields only.
\<close>

datatype ModalEvent =
    ProbeAnswered "bool FetchResult"
  | SshTabClicked
  | GithubTabClicked
  | ReposAnswered "(GithubRepo list option \<times> string option) FetchResult"
  | RepoUrlTyped string
  | FolderNameTyped string
  | KeyFileChosen "string option"
  | GithubRepoSelected string
  | Submitted
  | SubmitAnswered "(string option \<times> string option) FetchResult"
  | Closed

fun modalStep :: "AddRepoModal \<Rightarrow> ModalEvent \<Rightarrow> AddRepoModal" where
  "modalStep st (ProbeAnswered res) = checkGithubAvailability True res st"
| "modalStep st SshTabClicked = clickSshTab st"
| "modalStep st GithubTabClicked = clickGithubTab st"
| "modalStep st (ReposAnswered res) = fetchGithubRepos True res st"
| "modalStep st (RepoUrlTyped v) = st\<lparr>repoUrl := v\<rparr>"
| "modalStep st (FolderNameTyped v) = st\<lparr>folderName := v\<rparr>"
| "modalStep st (KeyFileChosen v) = st\<lparr>sshKeyFile := v\<rparr>"
| "modalStep st (GithubRepoSelected v) = handleGithubRepoSelect v st"
| "modalStep st Submitted = fst (handleSubmit st)"
| "modalStep st (SubmitAnswered res) = submitDone res st"
| "modalStep st Closed = handleClose st"

definition modalRun :: "ModalEvent list \<Rightarrow> AddRepoModal" where
  "modalRun evs = foldl modalStep initialAddRepoModal evs"

subsection \<open>The status contract\<close>

record Repository =
  folder :: string
  active_branch :: "string option"
  committed_date_str :: "string option"
  sha :: "string option"
  author :: "string option"
  commit_message :: "string option"
  remotes :: "(string \<times> string) list"
  local_branches :: "string list"
  remote_branches :: "string list"

record DeployForm =
  branches :: "string list"
  selected :: string

record DeployPageData =
  repo :: Repository
  form :: DeployForm
  errors :: "string list option"

record DeployResponse =
  success :: "string option"
  response_errors :: "string list option"

record CleanupResponse =
  cleanup_success :: "bool option"
  cleanup_message :: "string option"
  cleanup_error :: "string option"

subsection \<open>The Deploy page\<close>

record DeployState =
  data :: "DeployPageData option"
  loading :: bool
  error :: "string option"
  deployResponse :: "DeployResponse option"
  selectedBranch :: string
  deploying :: bool
  cleanupResponse :: "CleanupResponse option"
  cleaningUp :: bool

definition initialDeployState :: DeployState where
  "initialDeployState =
     \<lparr>data = None, loading = True, error = None, deployResponse = None,
      selectedBranch = [], deploying = False, cleanupResponse = None, cleaningUp = False\<rparr>"

function showNat :: "nat \<Rightarrow> string" where
  "showNat n =
     (if n < 10 then [''0123456789'' ! n]
      else showNat (n div 10) @ [''0123456789'' ! (n mod 10)])"
  by pat_completeness auto
termination
  by (relation "measure (\<lambda>n. n)") auto

definition initialBranch :: "DeployForm \<Rightarrow> string" where
  \<comment> \<open>\<^verbatim>\<open>branches.includes(selected) ? selected : (branches[0] ?? "")\<close>\<close>
  "initialBranch f =
     (if selected f \<in> set (branches f) then selected f
      else (case branches f of [] \<Rightarrow> [] | b # _ \<Rightarrow> b))"

definition fetchDeployData ::
  "string \<Rightarrow> DeployPageData FetchResult \<Rightarrow> DeployState \<Rightarrow> DeployState" where
  "fetchDeployData fld res st =
     (if \<not> truthy fld then st\<lparr>loading := False, error := Some ''No repository specified''\<rparr>
      else (case res of
              Threw msg \<Rightarrow> st\<lparr>error := Some msg, loading := False\<rparr>
            | Response ok status deployData \<Rightarrow>
                if \<not> ok
                then st\<lparr>error := Some (''HTTP error! status: '' @ showNat status),
                        loading := False\<rparr>
                else st\<lparr>data := Some deployData,
                        selectedBranch := initialBranch (form deployData),
                        loading := False\<rparr>))"

definition handleDeploy :: "string \<Rightarrow> DeployState \<Rightarrow> DeployState \<times> HttpRequest option" where
  "handleDeploy fld st =
     (if \<not> truthy fld \<or> \<not> truthy (selectedBranch st) \<or> data st = None then (st, None)
      else (st\<lparr>deploying := True, deployResponse := None\<rparr>,
            Some \<lparr>url = ''/deployment/deploy/'' @ fld, http_method = POST,
                  headers = [(''Accept'', ''application/json'')],
                  form_data = Some [(''branches'', selectedBranch st)]\<rparr>))"

text \<open>
  The body of a deploy response, as the page reads it: \<^verbatim>\<open>result.success\<close>, and
  \<^verbatim>\<open>result.error\<close>, which is a string or an array of strings.
\<close>

datatype ErrorData = ErrorString string | ErrorArray "string list"

record DeployResult =
  result_success :: "string option"
  deploy_error :: "ErrorData option"

definition deployErrors :: "ErrorData option \<Rightarrow> string list" where
  \<comment> \<open>\<^verbatim>\<open>errorData = result.error || "Deployment failed"\<close>, then
     \<^verbatim>\<open>Array.isArray(errorData) ? [errorData.join("")] : [errorData]\<close>\<close>
  "deployErrors e =
     (case e of
        None \<Rightarrow> [''Deployment failed'']
      | Some (ErrorString s) \<Rightarrow> [if truthy s then s else ''Deployment failed'']
      | Some (ErrorArray es) \<Rightarrow> [concat es])"

definition deployDone :: "DeployResult FetchResult \<Rightarrow> DeployState \<Rightarrow> DeployState" where
  "deployDone res st =
     (case res of
        Threw msg \<Rightarrow>
          st\<lparr>deployResponse := Some \<lparr>success = None, response_errors = Some [msg]\<rparr>,
             deploying := False\<rparr>
      | Response ok status result \<Rightarrow>
          if ok
          then st\<lparr>deployResponse :=
                    Some \<lparr>success =
                            Some (or_default (result_success result) ''Deployment successful!''),
                          response_errors = None\<rparr>,
                  deploying := False\<rparr>
          else st\<lparr>deployResponse :=
                    Some \<lparr>success = None,
                          response_errors = Some (deployErrors (deploy_error result))\<rparr>,
                  deploying := False\<rparr>)"

datatype DeployScreen = LoadingScreen | ErrorScreen | MainScreen

definition deployScreen :: "DeployState \<Rightarrow> DeployScreen" where
  \<comment> \<open>the two early returns of the component, then the page itself\<close>
  "deployScreen st =
     (if loading st then LoadingScreen
      else if truthy_opt (error st) \<or> data st = None then ErrorScreen
      else MainScreen)"

definition deployButtonDisabled :: "DeployState \<Rightarrow> bool" where
  "deployButtonDisabled st = (\<not> truthy (selectedBranch st) \<or> deploying st)"

definition clickDeploy :: "string \<Rightarrow> DeployState \<Rightarrow> DeployState \<times> HttpRequest option" where
  \<comment> \<open>the Deploy button exists on the page only, and a disabled button fires no click\<close>
  "clickDeploy fld st =
     (if deployScreen st = MainScreen \<and> \<not> deployButtonDisabled st then handleDeploy fld st
      else (st, None))"

definition optLocalBranches :: "DeployPageData option \<Rightarrow> string list option" where
  \<comment> \<open>\<^verbatim>\<open>data?.repo?.local_branches\<close>\<close>
  "optLocalBranches d = map_option (\<lambda>x. local_branches (repo x)) d"

definition cleanupDisabledFor :: "bool \<Rightarrow> string list option \<Rightarrow> bool" where
  \<comment> \<open>\<^verbatim>\<open>cleaningUp || !local_branches || local_branches.length <= 1\<close>; an array, even an
     empty one, is truthy\<close>
  "cleanupDisabledFor busy bs =
     (busy \<or> (case bs of None \<Rightarrow> True | Some xs \<Rightarrow> length xs \<le> 1))"

definition cleanupDisabled :: "DeployState \<Rightarrow> bool" where
  "cleanupDisabled st = cleanupDisabledFor (cleaningUp st) (optLocalBranches (data st))"

definition handleCleanupBranches ::
  "string \<Rightarrow> DeployState \<Rightarrow> DeployState \<times> HttpRequest option" where
  "handleCleanupBranches fld st =
     (if \<not> truthy fld then (st, None)
      else (st\<lparr>cleaningUp := True, cleanupResponse := None\<rparr>,
            Some \<lparr>url = ''/deployment/api/cleanup-branches/'' @ fld, http_method = POST,
                  headers = [(''Accept'', ''application/json'')], form_data = None\<rparr>))"

definition clickCleanup :: "string \<Rightarrow> DeployState \<Rightarrow> DeployState \<times> HttpRequest option" where
  "clickCleanup fld st =
     (if deployScreen st = MainScreen \<and> \<not> cleanupDisabled st then handleCleanupBranches fld st
      else (st, None))"

text \<open>The body of a cleanup response, as the page reads it.\<close>

record CleanupResult =
  deleted_branches :: "string list option"
  result_active_branch :: "string option"
  result_error :: "string option"

definition cleanupDone :: "CleanupResult FetchResult \<Rightarrow> DeployState \<Rightarrow> DeployState" where
  "cleanupDone res st =
     (case res of
        Threw msg \<Rightarrow>
          st\<lparr>cleanupResponse :=
               Some \<lparr>cleanup_success = None, cleanup_message = None, cleanup_error = Some msg\<rparr>,
             cleaningUp := False\<rparr>
      | Response ok status result \<Rightarrow>
          if ok
          then (let deletedCount = (case deleted_branches result of None \<Rightarrow> 0 | Some ds \<Rightarrow> length ds)
                in st\<lparr>cleanupResponse :=
                          Some \<lparr>cleanup_success = Some True,
                                cleanup_message =
                                  Some (''Successfully deleted '' @ showNat deletedCount @ '' branch''
                                        @ (if deletedCount \<noteq> 1 then ''es'' else [])
                                        @ ''. Active branch: ''
                                        @ (case result_active_branch result of
                                             None \<Rightarrow> ''null'' | Some b \<Rightarrow> b)),
                                cleanup_error = None\<rparr>,
                        cleaningUp := False\<rparr>)
          else st\<lparr>cleanupResponse :=
                    Some \<lparr>cleanup_success = None, cleanup_message = None,
                          cleanup_error =
                            Some (or_default (result_error result) ''Failed to cleanup branches'')\<rparr>,
                  cleaningUp := False\<rparr>)"

subsection \<open>The block of remote fetch errors\<close>

definition isWhiteSpace :: "char \<Rightarrow> bool" where
  \<comment> \<open>the white space and line terminators that \<^verbatim>\<open>trim\<close> strips, among code units below 256\<close>
  "isWhiteSpace c =
     (c = CHR 0x09 \<or> c = CHR 0x0A \<or> c = CHR 0x0B \<or> c = CHR 0x0C \<or> c = CHR 0x0D \<or>
      c = CHR 0x20 \<or> c = CHR 0xA0)"

definition trim :: "string \<Rightarrow> string" where
  "trim s = rev (dropWhile isWhiteSpace (rev (dropWhile isWhiteSpace s)))"

definition showFetchErrors :: "DeployPageData \<Rightarrow> bool" where
  \<comment> \<open>\<^verbatim>\<open>data.errors && Array.isArray(data.errors) && data.errors.some(e => Boolean(e?.trim()))\<close>\<close>
  "showFetchErrors d =
     (case errors d of None \<Rightarrow> False | Some es \<Rightarrow> list_ex (\<lambda>e. truthy (trim e)) es)"

definition shownFetchErrors :: "DeployPageData \<Rightarrow> string list" where
  \<comment> \<open>\<^verbatim>\<open>data.errors.filter(Boolean)\<close>, when the block is shown\<close>
  "shownFetchErrors d =
     (if showFetchErrors d then filter truthy (case errors d of None \<Rightarrow> [] | Some es \<Rightarrow> es)
      else [])"

subsection \<open>The router\<close>

definition isLineTerminator :: "char \<Rightarrow> bool" where
  \<comment> \<open>what \<^verbatim>\<open>.\<close> refuses, among code units below 256\<close>
  "isLineTerminator c = (c = CHR 0x0A \<or> c = CHR 0x0D)"

definition matchAt :: "string \<Rightarrow> string option" where
  \<comment> \<open>the pattern \<^verbatim>\<open>#\/status\/(.+)$\<close> tried at the start of \<open>s\<close>: the literal, then the
     longest run of \<^verbatim>\<open>.\<close>, which has to be non-empty and to reach the end of the input (a
     shorter run would not be at the end either); the result is group 1\<close>
  "matchAt s =
     (if take 9 s = ''#/status/''
      then (let run = takeWhile (\<lambda>c. \<not> isLineTerminator c) (drop 9 s);
                rest = dropWhile (\<lambda>c. \<not> isLineTerminator c) (drop 9 s)
            in if run \<noteq> [] \<and> rest = [] then Some run else None)
      else None)"

fun statusMatch :: "string \<Rightarrow> string option" where
  \<comment> \<open>\<^verbatim>\<open>hash.match(/#\/status\/(.+)$/)\<close>: the pattern is tried at each position from the left\<close>
  "statusMatch [] = matchAt []"
| "statusMatch (c # cs) =
     (case matchAt (c # cs) of Some g \<Rightarrow> Some g | None \<Rightarrow> statusMatch cs)"

datatype View = ViewRepos | ViewDeploy

definition handleHashChange :: "string \<Rightarrow> View" where
  \<comment> \<open>the value given to \<^verbatim>\<open>setCurrentView\<close>; the router renders the Deploy page when it is
     \<open>ViewDeploy\<close> and the repository list otherwise\<close>
  "handleHashChange hash =
     (case statusMatch hash of
        None \<Rightarrow> ViewRepos
      | Some g \<Rightarrow> if truthy g then ViewDeploy else ViewRepos)"

definition deployFolder :: "string \<Rightarrow> string" where
  \<comment> \<open>\<^verbatim>\<open>window.location.hash.match(/#\/status\/(.+)$/)?.[1] || ""\<close>\<close>
  "deployFolder hash = or_default (statusMatch hash) []"

definition handleRepoDetails :: "string \<Rightarrow> string" where
  \<comment> \<open>the hash after \<^verbatim>\<open>window.location.hash = `/status/${folder}`\<close>, for a folder whose
     characters the URL serialiser leaves as they are\<close>
  "handleRepoDetails fld = ''#/status/'' @ fld"

definition statusShaped :: "string \<Rightarrow> bool" where
  \<comment> \<open>the reading of the informal pattern \<^verbatim>\<open>#/status/<non-empty folder name>\<close> as the shape
     of the whole hash\<close>
  "statusShaped hash = (take 9 hash = ''#/status/'' \<and> drop 9 hash \<noteq> [])"

subsection \<open>Rendering nullable fields\<close>

datatype JsError = TypeError

definition substring :: "string option \<Rightarrow> nat \<Rightarrow> nat \<Rightarrow> JsError + string" where
  \<comment> \<open>\<^verbatim>\<open>v.substring(i, j)\<close> with \<open>i \<le> j\<close>: calling it on \<^verbatim>\<open>null\<close> throws\<close>
  "substring v i j = (case v of None \<Rightarrow> Inl TypeError | Some s \<Rightarrow> Inr (drop i (take j s)))"

definition renderChild :: "string option \<Rightarrow> string" where
  \<comment> \<open>React renders a \<^verbatim>\<open>null\<close> child as nothing\<close>
  "renderChild v = (case v of None \<Rightarrow> [] | Some s \<Rightarrow> s)"

definition repoListRow :: "Repository \<Rightarrow> JsError + string list" where
  \<comment> \<open>the five cells of a row of the repository list\<close>
  "repoListRow r =
     (case (if truthy_opt (sha r) then substring (sha r) 0 8 else Inr ''-'') of
        Inl e \<Rightarrow> Inl e
      | Inr hash_cell \<Rightarrow>
          Inr [folder r, or_default (active_branch r) ''-'',
               or_default (committed_date_str r) ''-'', hash_cell,
               or_default (author r) ''-''])"

record RepoDetails =
  git_hash :: string
  commit_message_cell :: string
  author_cell :: string
  committed_cell :: string
  active_branch_cell :: string
  local_branches_cell :: "string list"
  remotes_cell :: "(string \<times> string) list"

definition repoDetails :: "Repository \<Rightarrow> RepoDetails" where
  \<comment> \<open>the rows of the details table of the Deploy page\<close>
  "repoDetails r =
     \<lparr>git_hash = renderChild (sha r), commit_message_cell = renderChild (commit_message r),
      author_cell = renderChild (author r), committed_cell = renderChild (committed_date_str r),
      active_branch_cell = renderChild (active_branch r),
      local_branches_cell = local_branches r, remotes_cell = remotes r\<rparr>"

section \<open>The server, modelled from the specification\<close>

text \<open>
  The server of the plugin is not among the sources. What the claims say about it is
  settled on the definitions of this section, each written from the words of the
  specification.
\<close>

subsection \<open>The GitHub-availability probe\<close>

text \<open>
  Modelled from the spec: the three GitHub App settings of the persisted configuration
  (section 6: "optional GitHub App id / base64 private key / installation id"), under the
  names the README gives them; the server code that reads them is not among the sources.
\<close>

record GitHubAppSettings =
  gh_app_id :: "string option"
  gh_app_private_key :: "string option"
  gh_app_installation_id :: "string option"

text \<open>
  Modelled from the spec: the GitHub-availability probe of the server, missing from the
  sources, "that reports whether all three GitHub App settings are present" (section 6).
  The README says the same of the configuration: "To use GitHub App authentication, you
  need all three of these", and "If these are not configured, only SSH key method will be
  available".
\<close>

definition github_available :: "GitHubAppSettings \<Rightarrow> bool" where
  "github_available c =
     (gh_app_id c \<noteq> None \<and> gh_app_private_key c \<noteq> None \<and> gh_app_installation_id c \<noteq> None)"

subsection \<open>Outcomes\<close>

text \<open>
  Modelled from the spec: the error taxonomy of section 7, as far as the operations below
  raise it; the server code that defines it is not among the sources.
\<close>

datatype ErrorDetail = NotConfigured | AuthenticationError string | GitOperationError string

text \<open>
  Modelled from the spec: the outcome tags of section 3, "Success, Rejected(reason),
  Failed(error detail)"; the server code that defines them is not among the sources.
\<close>

datatype 'a Outcome = Success 'a | Rejected string | Failed ErrorDetail

subsection \<open>The working tree of a repository\<close>

text \<open>
  Modelled from the spec: the mutating git commands a deploy or a cleanup runs (sections
  4.4 and 4.5); the server code that runs them is not among the sources.
\<close>

datatype GitCommand =
    Fetch
  | Checkout string
  | ResetHard string
  | FastForward string
  | DeleteBranch string

text \<open>
  Modelled from the spec: the git state of one repository (section 3): the active branch,
  absent when HEAD is detached or unborn, the HEAD commit, the local branches and the
  remote-tracking refs with their tips, and the mutating commands run so far, oldest
  first. The server code that holds it is not among the sources.
\<close>

record WorkingTree =
  head_branch :: "string option"
  head_sha :: "string option"
  local_tips :: "(string \<times> string) list"
  remote_tips :: "(string \<times> string) list"
  git_log :: "GitCommand list"

subsection \<open>Branch cleanup\<close>

text \<open>
  Modelled from the spec: the deletion loop of the branch cleanup, missing from the
  sources. "Deletion must be best-effort per branch: if one branch fails to delete [...]
  record that branch as not deleted and continue with the rest" (section 4.5). The first
  argument says which branches git refuses to delete.
\<close>

fun delete_branches ::
  "(string \<Rightarrow> bool) \<Rightarrow> string list \<Rightarrow> WorkingTree \<Rightarrow> string list \<times> WorkingTree" where
  "delete_branches refused [] w = ([], w)"
| "delete_branches refused (b # bs) w =
     (if refused b
      then delete_branches refused bs (w\<lparr>git_log := git_log w @ [DeleteBranch b]\<rparr>)
      else (case delete_branches refused bs
                   (w\<lparr>local_tips := filter (\<lambda>p. fst p \<noteq> b) (local_tips w),
                      git_log := git_log w @ [DeleteBranch b]\<rparr>) of
              (deleted, w') \<Rightarrow> (b # deleted, w')))"

text \<open>
  Modelled from the spec: the branch cleanup of the server, missing from the sources:
  "enumerate local branches, exclude the current active branch (never deleted, even if
  otherwise eligible), delete every remaining local branch. [...] Returns the set actually
  deleted plus the (unchanged) active branch" (section 4.5).
\<close>

definition cleanup ::
  "(string \<Rightarrow> bool) \<Rightarrow> WorkingTree \<Rightarrow> (string list \<times> string option) \<times> WorkingTree" where
  "cleanup refused w =
     (case delete_branches refused
             (filter (\<lambda>b. Some b \<noteq> head_branch w) (map fst (local_tips w))) w of
        (deleted, w') \<Rightarrow> ((deleted, head_branch w'), w'))"

subsection \<open>The deploy engine\<close>

text \<open>
  Modelled from the spec: a deploy request, "(repository folder name, target branch
  name)" (section 3); the server code that builds it is not among the sources.
\<close>

record DeployRequest =
  request_folder :: string
  target_branch :: string

text \<open>
  Modelled from the spec: the deploy settings of the persisted configuration (section 6):
  the optional branch allow-list and the optional post-deploy hook. The server code that
  reads them is not among the sources.
\<close>

record DeployPolicy =
  allowed_branches :: "string list option"
  post_hook :: "string option"

text \<open>
  Modelled from the spec: the allow-list as configured, "optional comma-separated branch
  allow-list" (section 6); the server code that parses it is not among the sources.
\<close>

definition parse_allowed_branches :: "string option \<Rightarrow> string list option" where
  "parse_allowed_branches v = map_option (split_where (\<lambda>c. c = CHR '','')) v"

text \<open>
  Modelled from the spec: what lies outside the engine in one deploy: the answer of the
  remote to the fetch (an error, or the remote-tracking refs after it) and the error of
  the post-deploy hook, if it raises one.
\<close>

record DeployWorld =
  fetch_answer :: "string + (string \<times> string) list"
  hook_error :: "string option"

text \<open>
  Modelled from the spec: the local branch that tracks a remote-tracking ref (section 4.4,
  step 4: "create/update a local branch tracking it"): the ref without the name of its
  remote, \<^verbatim>\<open>main\<close> for \<^verbatim>\<open>origin/main\<close>.
\<close>

definition tracking_branch :: "string \<Rightarrow> string" where
  "tracking_branch ref = drop 1 (dropWhile (\<lambda>c. c \<noteq> CHR ''/'') ref)"

text \<open>
  Modelled from the spec: creating or updating a local branch at a tip (section 4.4,
  step 4).
\<close>

definition set_tip :: "string \<Rightarrow> string \<Rightarrow> (string \<times> string) list \<Rightarrow> (string \<times> string) list" where
  "set_tip b tip tips =
     (if b \<in> set (map fst tips) then map (\<lambda>p. if fst p = b then (b, tip) else p) tips
      else tips @ [(b, tip)])"

text \<open>
  Modelled from the spec: step 4 of the deploy, missing from the sources: "if it exists as
  a remote-tracking ref, create/update a local branch tracking it and hard-reset to that
  ref's tip; if it already exists purely as a local branch, check it out and fast-forward
  if a corresponding remote ref is present" (section 4.4). No result when the branch is
  neither.
\<close>

definition switch_branch :: "string \<Rightarrow> WorkingTree \<Rightarrow> WorkingTree option" where
  "switch_branch b w =
     (case map_of (remote_tips w) b of
        Some tip \<Rightarrow>
          Some (w\<lparr>head_branch := Some (tracking_branch b), head_sha := Some tip,
                  local_tips := set_tip (tracking_branch b) tip (local_tips w),
                  git_log := git_log w @ [Checkout (tracking_branch b), ResetHard b]\<rparr>)
      | None \<Rightarrow>
          (case map_of (local_tips w) b of
             None \<Rightarrow> None
           | Some tip \<Rightarrow>
               (case find (\<lambda>p. tracking_branch (fst p) = b) (remote_tips w) of
                  None \<Rightarrow>
                    Some (w\<lparr>head_branch := Some b, head_sha := Some tip,
                            git_log := git_log w @ [Checkout b]\<rparr>)
                | Some (ref, remote_tip) \<Rightarrow>
                    Some (w\<lparr>head_branch := Some b, head_sha := Some remote_tip,
                            local_tips := set_tip b remote_tip (local_tips w),
                            git_log := git_log w @ [Checkout b, FastForward ref]\<rparr>))))"

text \<open>
  Modelled from the spec: the deploy engine of the server, missing from the sources
  (section 4.4, steps 1 to 6). The request is checked against the allow-list, then against
  the branches the repository knows (section 3), before any git command; the fetch comes
  next, and its failure is a warning when the branch exists locally; then the switch, the
  new HEAD and the hook, whose failure is reported and rolls nothing back. A success
  carries the new HEAD and the warnings. The per-repository lock orders whole deploys and
  is not part of this sequential model.
\<close>

definition deploy ::
  "DeployPolicy \<Rightarrow> DeployWorld \<Rightarrow> DeployRequest \<Rightarrow> WorkingTree
     \<Rightarrow> (string option \<times> string list) Outcome \<times> WorkingTree" where
  "deploy policy world req w =
     (let b = target_branch req in
      if (case allowed_branches policy of None \<Rightarrow> False | Some allowed \<Rightarrow> b \<notin> set allowed)
      then (Rejected ''branch not allowed'', w)
      else if b \<notin> set (map fst (local_tips w)) \<and> b \<notin> set (map fst (remote_tips w))
      then (Rejected ''unknown branch'', w)
      else
        (let w1 = w\<lparr>git_log := git_log w @ [Fetch]\<rparr> in
         case (case fetch_answer world of
                 Inl err \<Rightarrow>
                   if b \<in> set (map fst (local_tips w)) then Inr ([err], w1)
                   else Inl (GitOperationError err)
               | Inr refs \<Rightarrow> Inr ([], w1\<lparr>remote_tips := refs\<rparr>)) of
           Inl e \<Rightarrow> (Failed e, w1)
         | Inr (warnings, w2) \<Rightarrow>
             (case switch_branch b w2 of
                None \<Rightarrow> (Failed (GitOperationError ''checkout failed''), w2)
              | Some w3 \<Rightarrow>
                  (Success (head_sha w3,
                            warnings @ (case post_hook policy of
                                          None \<Rightarrow> []
                                        | Some hook \<Rightarrow>
                                            (case hook_error world of
                                               None \<Rightarrow> []
                                             | Some err \<Rightarrow> [err]))), w3))))"

subsection \<open>The repository provisioner\<close>

text \<open>
  The host filesystem as the provisioner sees it (sections 4.6 and 6): entries by
  absolute path, a path being the list of its segments. The server code that touches the
  filesystem is not among the sources.
\<close>

text \<open>
  Modelled from the spec: the permissions of a file, "owner-only" (section 4.6) or not.
\<close>

datatype Mode = OwnerOnly | Shared

text \<open>
  Modelled from the spec: an entry of the filesystem, a directory or a file with its bytes
  and its permissions.
\<close>

datatype Entry = Directory | RegularFile string Mode

text \<open>
  Modelled from the spec: the ways the provisioner touches the filesystem (section 4.6):
  looking a path up, writing the key file, cloning into the target directory.
\<close>

datatype FsAccess = Stat "string list" | WriteFile "string list" | CloneInto "string list"

text \<open>
  Modelled from the spec: the host, its entries by path and the accesses made so far,
  oldest first.
\<close>

record Host =
  entries :: "string list \<Rightarrow> Entry option"
  accesses :: "FsAccess list"

text \<open>
  Modelled from the spec: the path separators a folder name must not contain (section
  4.6), the slash and the backslash.
\<close>

definition is_path_separator :: "char \<Rightarrow> bool" where
  "is_path_separator c = (c = CHR ''/'' \<or> c = CHR 0x5C)"

text \<open>Modelled from the spec: the segments of a name, between its path separators.\<close>

definition segments :: "string \<Rightarrow> string list" where
  "segments n = split_where is_path_separator n"

text \<open>
  Modelled from the spec: path normalization (section 4.6, "after normalization"): empty
  and \<^verbatim>\<open>.\<close> segments are dropped, \<^verbatim>\<open>..\<close> removes the segment before it. The first
  argument holds the segments kept so far, last one first.
\<close>

fun normalize :: "string list \<Rightarrow> string list \<Rightarrow> string list" where
  "normalize kept [] = rev kept"
| "normalize kept (seg # segs) =
     (if seg = [] \<or> seg = ''.'' then normalize kept segs
      else if seg = ''..'' then normalize (drop 1 kept) segs
      else normalize (seg # kept) segs)"

text \<open>
  Modelled from the spec: a name "containing \<^verbatim>\<open>..\<close>" (section 8), two dots in a row
  anywhere in it.
\<close>

fun contains_dotdot :: "string \<Rightarrow> bool" where
  "contains_dotdot (a # b # cs) = ((a = CHR ''.'' \<and> b = CHR ''.'') \<or> contains_dotdot (b # cs))"
| "contains_dotdot cs = False"

text \<open>
  Modelled from the spec: folder-name validation, missing from the sources: "reject names
  containing path separators, \<^verbatim>\<open>..\<close> segments, or that resolve to an existing path outside the
  DAGs root after normalization" (section 4.6). The checks on the name alone come first,
  since "for all folder names containing \<^verbatim>\<open>..\<close> or a path separator, provisioning must reject
  before touching the filesystem" (section 8). The result says whether the name is valid.
\<close>

definition validate_folder_name :: "string list \<Rightarrow> string \<Rightarrow> Host \<Rightarrow> bool \<times> Host" where
  "validate_folder_name root n host =
     (if list_ex is_path_separator n \<or> ''..'' \<in> set (segments n) \<or> contains_dotdot n
      then (False, host)
      else (let target = normalize [] (root @ segments n);
                host1 = host\<lparr>accesses := accesses host @ [Stat target]\<rparr>
            in (\<not> (entries host target \<noteq> None \<and> take (length root) target \<noteq> root), host1)))"

text \<open>
  Modelled from the spec: adding a repository over SSH, missing from the sources (section
  4.6): after validation, "persist the supplied key bytes to \<^verbatim>\<open><folderName>.key\<close> beside the
  target clone directory with owner-only permissions, then clone the repository over SSH
  using that identity". The first argument after the root says whether the clone of a URL
  succeeds.
\<close>

definition addViaSSH ::
  "string list \<Rightarrow> (string \<Rightarrow> bool) \<Rightarrow> string \<Rightarrow> string \<Rightarrow> string \<Rightarrow> Host \<Rightarrow> unit Outcome \<times> Host" where
  "addViaSSH root clones repo_url folder_name key_bytes host =
     (case validate_folder_name root folder_name host of
        (False, h) \<Rightarrow> (Rejected ''invalid folder name'', h)
      | (True, h) \<Rightarrow>
          (let key_path = root @ [folder_name @ ''.key''];
               h1 = h\<lparr>entries := (entries h)(key_path \<mapsto> RegularFile key_bytes OwnerOnly),
                      accesses := accesses h @ [WriteFile key_path]\<rparr>
           in if clones repo_url
              then (Success (),
                    h1\<lparr>entries := (entries h1)(root @ [folder_name] \<mapsto> Directory),
                       accesses := accesses h1 @ [CloneInto (root @ [folder_name])]\<rparr>)
              else (Failed (GitOperationError ''clone failed''), h1)))"

text \<open>
  Modelled from the spec: adding a repository through the GitHub App, missing from the
  sources (section 4.6): after the same validation, "confirm the installation has access
  to the named repository [...] before cloning over HTTPS using the token as the
  credential; reject with a typed error if the app is not configured or the repository is
  not in the accessible set". The accessible repositories are absent when the token
  exchange fails.
\<close>

definition addViaGitHubApp ::
  "string list \<Rightarrow> GitHubAppSettings \<Rightarrow> string list option \<Rightarrow> (string \<Rightarrow> bool) \<Rightarrow> string \<Rightarrow> string
     \<Rightarrow> Host \<Rightarrow> unit Outcome \<times> Host" where
  "addViaGitHubApp root settings accessible clones repo_full_name folder_name host =
     (case validate_folder_name root folder_name host of
        (False, h) \<Rightarrow> (Rejected ''invalid folder name'', h)
      | (True, h) \<Rightarrow>
          if \<not> github_available settings then (Failed NotConfigured, h)
          else (case accessible of
                  None \<Rightarrow> (Failed (AuthenticationError ''token exchange failed''), h)
                | Some repos \<Rightarrow>
                    if repo_full_name \<notin> set repos then (Rejected ''repository not accessible'', h)
                    else if clones repo_full_name
                    then (Success (),
                          h\<lparr>entries := (entries h)(root @ [folder_name] \<mapsto> Directory),
                            accesses := accesses h @ [CloneInto (root @ [folder_name])]\<rparr>)
                    else (Failed (GitOperationError ''clone failed''), h)))"

text \<open>
  Modelled from the spec: how an endpoint reads a field of the form it is sent (section
  6); a field that is missing reads as the empty string.
\<close>

definition form_field :: "string \<Rightarrow> HttpRequest \<Rightarrow> string" where
  "form_field k req =
     (case form_data req of
        None \<Rightarrow> []
      | Some kvs \<Rightarrow> (case map_of kvs k of None \<Rightarrow> [] | Some v \<Rightarrow> v))"

text \<open>
  Modelled from the spec: the two add-repository endpoints (section 6: "SSH form with repo
  URL, folder name, key upload; GitHub form with selected owner/repo full name and folder
  name"), which hand the form fields of a request to the provisioner; the routes and the
  field names are those the client posts.
\<close>

definition add_repository ::
  "string list \<Rightarrow> GitHubAppSettings \<Rightarrow> string list option \<Rightarrow> (string \<Rightarrow> bool) \<Rightarrow> HttpRequest
     \<Rightarrow> Host \<Rightarrow> unit Outcome \<times> Host" where
  "add_repository root settings accessible clones req host =
     (if url req = ''/deployment/api/repos/add-ssh''
      then addViaSSH root clones (form_field ''repo_url'' req) (form_field ''folder_name'' req)
             (form_field ''ssh_key'' req) host
      else if url req = ''/deployment/api/repos/add-github''
      then addViaGitHubApp root settings accessible clones (form_field ''repo_full_name'' req)
             (form_field ''folder_name'' req) host
      else (Rejected ''not found'', host))"

subsection \<open>The repository inventory\<close>

text \<open>
  Modelled from the spec: what a subdirectory of the DAGs root holds (section 4.2): either
  no git metadata directory, or the state git reads from the disk without the network.
  The view of the repository has no remote branches yet.
\<close>

datatype Subdirectory = NotARepository | GitRepository Repository

text \<open>
  Modelled from the spec: a scan error, "non-fatal, per-repository" (section 7), with the
  folder of the repository it belongs to.
\<close>

record ScanError =
  error_folder :: string
  error_message :: string

text \<open>
  Modelled from the spec: the inventory scan of the server, missing from the sources:
  \<^verbatim>\<open>scan(rootDir) -> [Repository], [ScanError]\<close> (section 4.2). It goes through the
  immediate subdirectories in the order of enumeration, skips those without git metadata,
  and for each repository attempts the remote ref listing; "network failures here are
  collected as non-fatal ScanErrors per repository and surfaced alongside
  otherwise-successful status". The first argument is the answer of the remote of a folder:
  an error, or its branch refs.
\<close>

fun scan ::
  "(string \<Rightarrow> string + string list) \<Rightarrow> (string \<times> Subdirectory) list
     \<Rightarrow> Repository list \<times> ScanError list" where
  "scan remote [] = ([], [])"
| "scan remote ((n, NotARepository) # dirs) = scan remote dirs"
| "scan remote ((n, GitRepository r) # dirs) =
     (case scan remote dirs of
        (repos, errs) \<Rightarrow>
          (case remote n of
             Inl err \<Rightarrow>
               (r\<lparr>folder := n, remote_branches := []\<rparr> # repos,
                \<lparr>error_folder = n, error_message = err\<rparr> # errs)
           | Inr refs \<Rightarrow> (r\<lparr>folder := n, remote_branches := refs\<rparr> # repos, errs)))"

text \<open>
  Modelled from the spec: the status of one repository as the status endpoint returns it
  (section 6: the repository view "plus any scan errors"), the errors being those of the
  scan that belong to the folder (section 7: "they attach to the affected repository's
  entry").
\<close>

definition repository_status ::
  "(string \<Rightarrow> string + string list) \<Rightarrow> (string \<times> Subdirectory) list \<Rightarrow> string
     \<Rightarrow> (Repository \<times> string list) option" where
  "repository_status remote dirs n =
     (case scan remote dirs of
        (repos, errs) \<Rightarrow>
          (case find (\<lambda>r. folder r = n) repos of
             None \<Rightarrow> None
           | Some r \<Rightarrow>
               Some (r, map error_message (filter (\<lambda>e. error_folder e = n) errs))))"

subsection \<open>A repository used in the examples\<close>

definition teamA :: Repository where
  "teamA =
     \<lparr>folder = ''teamA'', active_branch = Some ''main'',
      committed_date_str = Some ''2025-01-01 10:00:00'', sha = Some ''0123456789abcdef'',
      author = Some ''dev'', commit_message = Some ''init'',
      remotes = [(''origin'', ''git@github.com:org/teamA.git'')],
      local_branches = [''main'', ''feature-x''],
      remote_branches = [''origin/main'', ''origin/dev'']\<rparr>"

definition teamA_page :: DeployPageData where
  "teamA_page =
     \<lparr>repo = teamA,
      form = \<lparr>branches = [''origin/main'', ''origin/dev''], selected = ''origin/dev''\<rparr>,
      errors = None\<rparr>"

definition teamA_loaded :: DeployState where
  "teamA_loaded = fetchDeployData ''teamA'' (Response True 200 teamA_page) initialDeployState"

definition teamC :: Repository where
  "teamC =
     \<lparr>folder = ''teamC'', active_branch = Some ''main'',
      committed_date_str = Some ''2025-02-02 09:30:00'', sha = Some ''fedcba9876543210'',
      author = Some ''ops'', commit_message = Some ''dags'',
      remotes = [(''origin'', ''git@github.com:org/teamC.git'')],
      local_branches = [''main''], remote_branches = []\<rparr>"

definition dags_root :: "(string \<times> Subdirectory) list" where
  "dags_root =
     [(''teamA'', GitRepository teamA), (''notes'', NotARepository),
      (''teamC'', GitRepository teamC)]"

definition teamC_unreachable :: "string \<Rightarrow> string + string list" where
  "teamC_unreachable n =
     (if n = ''teamC'' then Inl ''Could not resolve host: github.com''
      else Inr [''origin/main'', ''origin/dev''])"

definition teamC_page :: DeployPageData where
  "teamC_page =
     \<lparr>repo = teamC, form = \<lparr>branches = [''main''], selected = ''main''\<rparr>,
      errors = Some [''Could not resolve host: github.com'']\<rparr>"

definition teamA_tree :: WorkingTree where
  "teamA_tree =
     \<lparr>head_branch = Some ''main'', head_sha = Some ''a1'',
      local_tips = [(''main'', ''a1''), (''feature-x'', ''b2'')],
      remote_tips = [(''origin/main'', ''a1''), (''origin/dev'', ''d4'')],
      git_log = []\<rparr>"

definition main_only :: DeployPolicy where
  "main_only = \<lparr>allowed_branches = parse_allowed_branches (Some ''origin/main''), post_hook = None\<rparr>"

definition remote_moved :: DeployWorld where
  "remote_moved =
     \<lparr>fetch_answer = Inr [(''origin/main'', ''c3''), (''origin/dev'', ''d4'')],
      hook_error = None\<rparr>"

definition empty_host :: Host where
  "empty_host = \<lparr>entries = (\<lambda>p. None)([''dags''] \<mapsto> Directory), accesses = []\<rparr>"

definition key_only :: GitHubAppSettings where
  "key_only =
     \<lparr>gh_app_id = None, gh_app_private_key = Some ''LS0tLS1CRUdJTg=='',
      gh_app_installation_id = None\<rparr>"

section \<open>Properties of the client\<close>

subsection \<open>The Deploy page: initial branch and the deploy request\<close>

lemma initialBranch_cases:
  "initialBranch f =
     (if selected f \<in> set (branches f) then selected f
      else if branches f \<noteq> [] then hd (branches f) else [])"
  by (cases "branches f") (simp_all add: initialBranch_def)

lemma teamA_loaded_eq:
  "teamA_loaded =
     \<lparr>data = Some teamA_page, loading = False, error = None, deployResponse = None,
      selectedBranch = ''origin/dev'', deploying = False, cleanupResponse = None,
      cleaningUp = False\<rparr>"
  by (simp add: teamA_loaded_def fetchDeployData_def truthy_def initialDeployState_def
      initialBranch_def teamA_page_def)

text \<open>
  Claim C5. A deploy started from the page (the Deploy button is on the page and enabled)
  for a non-empty folder name and a selected branch issues one request: a POST to the
  deploy endpoint whose path ends in the folder name, with a form body of exactly one
  field, \<^verbatim>\<open>branches\<close>, holding the selected branch. Every request that \<^verbatim>\<open>handleDeploy\<close>
  issues is of this form.
\<close>

theorem deploy_request_shape:
  "(fld \<noteq> [] \<and> selectedBranch st \<noteq> [] \<and> deployScreen st = MainScreen \<and> \<not> deploying st \<longrightarrow>
      snd (clickDeploy fld st) =
        Some \<lparr>url = ''/deployment/deploy/'' @ fld, http_method = POST,
              headers = [(''Accept'', ''application/json'')],
              form_data = Some [(''branches'', selectedBranch st)]\<rparr>) \<and>
   (snd (handleDeploy fld st) = Some req \<longrightarrow>
      req = \<lparr>url = ''/deployment/deploy/'' @ fld, http_method = POST,
              headers = [(''Accept'', ''application/json'')],
              form_data = Some [(''branches'', selectedBranch st)]\<rparr>)"
  by (auto simp add: clickDeploy_def handleDeploy_def deployButtonDisabled_def truthy_def
      deployScreen_def split: if_splits)

theorem deploy_request_shape_witness:
  "snd (clickDeploy ''teamA'' teamA_loaded) =
     Some \<lparr>url = ''/deployment/deploy/teamA'', http_method = POST,
           headers = [(''Accept'', ''application/json'')],
           form_data = Some [(''branches'', ''origin/dev'')]\<rparr> \<and>
   snd (handleDeploy ''teamA'' teamA_loaded) =
     Some \<lparr>url = ''/deployment/deploy/teamA'', http_method = POST,
           headers = [(''Accept'', ''application/json'')],
           form_data = Some [(''branches'', ''origin/dev'')]\<rparr>"
proof -
  let ?req = "\<lparr>url = ''/deployment/deploy/teamA'', http_method = POST,
           headers = [(''Accept'', ''application/json'')],
           form_data = Some [(''branches'', ''origin/dev'')]\<rparr>"
  have a: "''teamA'' \<noteq> [] \<and> selectedBranch teamA_loaded \<noteq> [] \<and>
      deployScreen teamA_loaded = MainScreen \<and> \<not> deploying teamA_loaded"
    by (simp add: teamA_loaded_eq deployScreen_def truthy_opt_def)
  have b: "snd (handleDeploy ''teamA'' teamA_loaded) = Some ?req"
    by (simp add: teamA_loaded_eq handleDeploy_def truthy_def)
  from deploy_request_shape [of "''teamA''" teamA_loaded ?req] a b
  show ?thesis by (simp add: teamA_loaded_eq)
qed

text \<open>
  Claim C9. After a successful status fetch the selected branch is \<^verbatim>\<open>form.selected\<close> when
  that is a member of \<^verbatim>\<open>form.branches\<close>, otherwise the first element of
  \<^verbatim>\<open>form.branches\<close>, otherwise the empty string; and a deploy request is issued only when
  the folder name and the selected branch are both non-empty.
\<close>

theorem initial_branch_and_deploy_guard:
  "(fld \<noteq> [] \<longrightarrow>
      selectedBranch (fetchDeployData fld (Response True status d) st) =
        (if selected (form d) \<in> set (branches (form d)) then selected (form d)
         else if branches (form d) \<noteq> [] then hd (branches (form d)) else [])) \<and>
   (snd (handleDeploy fld st) = Some req \<longrightarrow> fld \<noteq> [] \<and> selectedBranch st \<noteq> []) \<and>
   (snd (clickDeploy fld st) = Some req \<longrightarrow> fld \<noteq> [] \<and> selectedBranch st \<noteq> [])"
  by (auto simp add: fetchDeployData_def handleDeploy_def clickDeploy_def truthy_def
      initialBranch_cases split: if_splits)

theorem initial_branch_and_deploy_guard_witness:
  "selectedBranch (fetchDeployData ''teamA'' (Response True 200 teamA_page) initialDeployState)
     = ''origin/dev'' \<and>
   selectedBranch
     (fetchDeployData ''teamA''
        (Response True 200 (teamA_page\<lparr>form := \<lparr>branches = [''origin/main''], selected = ''gone''\<rparr>\<rparr>))
        initialDeployState) = ''origin/main'' \<and>
   selectedBranch
     (fetchDeployData ''teamA''
        (Response True 200 (teamA_page\<lparr>form := \<lparr>branches = [], selected = ''gone''\<rparr>\<rparr>))
        initialDeployState) = [] \<and>
   snd (handleDeploy ''teamA'' teamA_loaded) =
     Some \<lparr>url = ''/deployment/deploy/teamA'', http_method = POST,
           headers = [(''Accept'', ''application/json'')],
           form_data = Some [(''branches'', ''origin/dev'')]\<rparr> \<and>
   selectedBranch teamA_loaded \<noteq> []"
proof -
  let ?req = "\<lparr>url = ''/deployment/deploy/teamA'', http_method = POST,
           headers = [(''Accept'', ''application/json'')],
           form_data = Some [(''branches'', ''origin/dev'')]\<rparr>"
  have r: "snd (handleDeploy ''teamA'' teamA_loaded) = Some ?req"
    by (simp add: teamA_loaded_eq handleDeploy_def truthy_def)
  note t = initial_branch_and_deploy_guard
  from t [of "''teamA''" 200 teamA_page initialDeployState ?req]
    t [of "''teamA''" 200 "teamA_page\<lparr>form := \<lparr>branches = [''origin/main''], selected = ''gone''\<rparr>\<rparr>"
        initialDeployState ?req]
    t [of "''teamA''" 200 "teamA_page\<lparr>form := \<lparr>branches = [], selected = ''gone''\<rparr>\<rparr>"
        initialDeployState ?req]
    t [of "''teamA''" 200 teamA_page teamA_loaded ?req] r
  show ?thesis by (simp add: teamA_page_def)
qed

subsection \<open>The Deploy page: the cleanup control\<close>

text \<open>
  Claim C10. The cleanup control is disabled whenever a cleanup is in progress, or
  \<^verbatim>\<open>local_branches\<close> is missing or has at most one entry; so a click that issues a cleanup
  request finds no cleanup in progress and at least two local branches in the page data.
\<close>

theorem cleanup_needs_two_branches:
  "(cleanupDisabledFor busy bs \<longleftrightarrow>
      busy \<or> bs = None \<or> (\<exists>xs. bs = Some xs \<and> length xs \<le> 1)) \<and>
   (snd (clickCleanup fld st) = Some req \<longrightarrow>
      \<not> cleaningUp st \<and> (\<exists>d. data st = Some d \<and> 2 \<le> length (local_branches (repo d))))"
  by (auto simp add: cleanupDisabledFor_def clickCleanup_def cleanupDisabled_def
      optLocalBranches_def handleCleanupBranches_def split: option.splits if_splits)

theorem cleanup_needs_two_branches_witness:
  "snd (clickCleanup ''teamA'' teamA_loaded) =
     Some \<lparr>url = ''/deployment/api/cleanup-branches/teamA'', http_method = POST,
           headers = [(''Accept'', ''application/json'')], form_data = None\<rparr> \<and>
   \<not> cleaningUp teamA_loaded \<and>
   (\<exists>d. data teamA_loaded = Some d \<and> 2 \<le> length (local_branches (repo d))) \<and>
   cleanupDisabledFor False (Some [''main'']) \<and>
   cleanupDisabledFor False None \<and>
   cleanupDisabledFor True (Some [''main'', ''feature-x''])"
proof -
  let ?req = "\<lparr>url = ''/deployment/api/cleanup-branches/teamA'', http_method = POST,
           headers = [(''Accept'', ''application/json'')], form_data = None\<rparr>"
  have r: "snd (clickCleanup ''teamA'' teamA_loaded) = Some ?req"
    by (simp add: teamA_loaded_eq clickCleanup_def cleanupDisabled_def cleanupDisabledFor_def
        optLocalBranches_def handleCleanupBranches_def deployScreen_def truthy_opt_def
        truthy_def teamA_page_def teamA_def)
  note t = cleanup_needs_two_branches
  from r t [of False "Some [''main'']" "''teamA''" teamA_loaded ?req]
    t [of False None "''teamA''" teamA_loaded ?req]
    t [of True "Some [''main'', ''feature-x'']" "''teamA''" teamA_loaded ?req]
  show ?thesis by simp
qed

subsection \<open>The router\<close>

lemma matchAt_Some_iff:
  "matchAt s = Some g \<longleftrightarrow>
     s = ''#/status/'' @ g \<and> g \<noteq> [] \<and> (\<forall>c\<in>set g. \<not> isLineTerminator c)"
proof
  assume h: "matchAt s = Some g"
  then have p: "take 9 s = ''#/status/''"
    by (simp add: matchAt_def split: if_splits)
  from h p have r: "takeWhile (\<lambda>c. \<not> isLineTerminator c) (drop 9 s) = g"
    and n: "g \<noteq> []" and e: "dropWhile (\<lambda>c. \<not> isLineTerminator c) (drop 9 s) = []"
    by (auto simp add: matchAt_def Let_def split: if_splits)
  from e have a: "\<forall>c\<in>set (drop 9 s). \<not> isLineTerminator c"
    by (simp add: dropWhile_eq_Nil_conv)
  then have "takeWhile (\<lambda>c. \<not> isLineTerminator c) (drop 9 s) = drop 9 s"
    by (simp add: takeWhile_eq_all_conv)
  with r have d: "drop 9 s = g" by simp
  have "s = take 9 s @ drop 9 s" by simp
  with p d have "s = ''#/status/'' @ g" by metis
  moreover from a d have "\<forall>c\<in>set g. \<not> isLineTerminator c" by simp
  ultimately show "s = ''#/status/'' @ g \<and> g \<noteq> [] \<and> (\<forall>c\<in>set g. \<not> isLineTerminator c)"
    using n by simp
next
  assume h: "s = ''#/status/'' @ g \<and> g \<noteq> [] \<and> (\<forall>c\<in>set g. \<not> isLineTerminator c)"
  then have t: "takeWhile (\<lambda>c. \<not> isLineTerminator c) g = g"
    by (simp add: takeWhile_eq_all_conv)
  from h have d: "dropWhile (\<lambda>c. \<not> isLineTerminator c) g = []"
    by (simp add: dropWhile_eq_Nil_conv)
  from h have s: "take 9 s = ''#/status/''" and r: "drop 9 s = g" by simp_all
  from h have n: "g \<noteq> []" by simp
  show "matchAt s = Some g"
    unfolding matchAt_def Let_def s r t d using n by simp
qed

lemma statusMatch_sound:
  "statusMatch h = Some g \<Longrightarrow>
     \<exists>pre. h = pre @ ''#/status/'' @ g \<and> g \<noteq> [] \<and> (\<forall>c\<in>set g. \<not> isLineTerminator c)"
proof (induction h)
  case Nil
  then show ?case by (simp add: matchAt_Some_iff)
next
  case (Cons c cs)
  show ?case
  proof (cases "matchAt (c # cs)")
    case None
    with Cons.prems have "statusMatch cs = Some g" by simp
    from Cons.IH [OF this] obtain pre where
      "cs = pre @ ''#/status/'' @ g \<and> g \<noteq> [] \<and> (\<forall>c\<in>set g. \<not> isLineTerminator c)" by blast
    then have "c # cs = (c # pre) @ ''#/status/'' @ g \<and> g \<noteq> [] \<and>
        (\<forall>c\<in>set g. \<not> isLineTerminator c)"
      by simp
    then show ?thesis by blast
  next
    case (Some g')
    with Cons.prems have "g' = g" by simp
    with Some have "c # cs = [] @ ''#/status/'' @ g \<and> g \<noteq> [] \<and>
        (\<forall>c\<in>set g. \<not> isLineTerminator c)"
      by (simp add: matchAt_Some_iff)
    then show ?thesis by blast
  qed
qed

lemma statusMatch_complete:
  "g \<noteq> [] \<Longrightarrow> \<forall>c\<in>set g. \<not> isLineTerminator c \<Longrightarrow>
     \<exists>g'. statusMatch (pre @ ''#/status/'' @ g) = Some g'"
proof (induction pre)
  case Nil
  then have "matchAt (''#/status/'' @ g) = Some g" by (simp add: matchAt_Some_iff)
  then show ?case by simp
next
  case (Cons c pre)
  then show ?case by (cases "matchAt (c # pre @ ''#/status/'' @ g)") auto
qed

lemma statusMatch_anchored:
  "g \<noteq> [] \<Longrightarrow> \<forall>c\<in>set g. \<not> isLineTerminator c \<Longrightarrow> statusMatch (''#/status/'' @ g) = Some g"
proof -
  assume "g \<noteq> []" "\<forall>c\<in>set g. \<not> isLineTerminator c"
  then have "matchAt (''#/status/'' @ g) = Some g" by (simp add: matchAt_Some_iff)
  then show ?thesis by simp
qed

text \<open>
  Claim C8, as amended. The router shows the Deploy page if and only if the hash ends
  with \<^verbatim>\<open>#/status/\<close> followed by a non-empty text free of line terminators, wherever in
  the hash that \<^verbatim>\<open>#/status/\<close> stands; for every other hash, the empty one included, it
  shows the repository list. The Deploy page reads its folder name with the same pattern:
  the folder name is non-empty exactly when the router shows the page, it is then such an
  ending of the hash, and for a hash \<^verbatim>\<open>#/status/<name>\<close> it is the name.
\<close>

theorem router_view:
  "(handleHashChange h = ViewDeploy \<longleftrightarrow>
      (\<exists>pre g. h = pre @ ''#/status/'' @ g \<and> g \<noteq> [] \<and> (\<forall>c\<in>set g. \<not> isLineTerminator c))) \<and>
   (handleHashChange h \<noteq> ViewDeploy \<longrightarrow> handleHashChange h = ViewRepos) \<and>
   (handleHashChange h = ViewDeploy \<longleftrightarrow> deployFolder h \<noteq> []) \<and>
   (deployFolder h \<noteq> [] \<longrightarrow>
      (\<exists>pre. h = pre @ ''#/status/'' @ deployFolder h) \<and>
      (\<forall>c\<in>set (deployFolder h). \<not> isLineTerminator c)) \<and>
   (g \<noteq> [] \<and> (\<forall>c\<in>set g. \<not> isLineTerminator c) \<longrightarrow> deployFolder (''#/status/'' @ g) = g)"
proof (intro conjI)
  show "handleHashChange h = ViewDeploy \<longleftrightarrow>
      (\<exists>pre g. h = pre @ ''#/status/'' @ g \<and> g \<noteq> [] \<and> (\<forall>c\<in>set g. \<not> isLineTerminator c))"
  proof
    assume "handleHashChange h = ViewDeploy"
    then obtain g where "statusMatch h = Some g"
      by (auto simp add: handleHashChange_def split: option.splits if_splits)
    from statusMatch_sound [OF this] show
      "\<exists>pre g. h = pre @ ''#/status/'' @ g \<and> g \<noteq> [] \<and> (\<forall>c\<in>set g. \<not> isLineTerminator c)"
      by blast
  next
    assume "\<exists>pre g. h = pre @ ''#/status/'' @ g \<and> g \<noteq> [] \<and> (\<forall>c\<in>set g. \<not> isLineTerminator c)"
    then obtain pre g where h: "h = pre @ ''#/status/'' @ g" and g: "g \<noteq> []"
      and l: "\<forall>c\<in>set g. \<not> isLineTerminator c" by blast
    from statusMatch_complete [OF g l, of pre] h obtain g' where m: "statusMatch h = Some g'"
      by blast
    from statusMatch_sound [OF m] have "g' \<noteq> []" by blast
    with m show "handleHashChange h = ViewDeploy"
      by (simp add: handleHashChange_def truthy_def)
  qed
next
  show "handleHashChange h \<noteq> ViewDeploy \<longrightarrow> handleHashChange h = ViewRepos"
    by (cases "handleHashChange h") simp_all
next
  show "handleHashChange h = ViewDeploy \<longleftrightarrow> deployFolder h \<noteq> []"
    by (auto simp add: handleHashChange_def deployFolder_def or_default_def truthy_def
        split: option.splits if_splits)
next
  show "deployFolder h \<noteq> [] \<longrightarrow>
      (\<exists>pre. h = pre @ ''#/status/'' @ deployFolder h) \<and>
      (\<forall>c\<in>set (deployFolder h). \<not> isLineTerminator c)"
  proof
    assume n: "deployFolder h \<noteq> []"
    then have "statusMatch h = Some (deployFolder h)"
      by (auto simp add: deployFolder_def or_default_def truthy_def split: option.splits if_splits)
    from statusMatch_sound [OF this] show
      "(\<exists>pre. h = pre @ ''#/status/'' @ deployFolder h) \<and>
       (\<forall>c\<in>set (deployFolder h). \<not> isLineTerminator c)" by blast
  qed
next
  show "g \<noteq> [] \<and> (\<forall>c\<in>set g. \<not> isLineTerminator c) \<longrightarrow> deployFolder (''#/status/'' @ g) = g"
    using statusMatch_anchored [of g]
    by (auto simp add: deployFolder_def or_default_def truthy_def simp del: statusMatch.simps)
qed

theorem router_view_witness:
  "handleHashChange ''#/status/teamA'' = ViewDeploy \<and>
   deployFolder ''#/status/teamA'' = ''teamA'' \<and>
   handleHashChange [] = ViewRepos \<and>
   handleHashChange ''#/status/'' = ViewRepos \<and>
   deployFolder (handleRepoDetails ''teamA'') = ''teamA''"
proof -
  have l: "\<forall>c\<in>set ''teamA''. \<not> isLineTerminator c" by (simp add: isLineTerminator_def)
  have e: "''#/status/teamA'' = [] @ ''#/status/'' @ ''teamA''" by simp
  have f: "deployFolder ''#/status/teamA'' = ''teamA''"
    using router_view [of "''#/status/teamA''" "''teamA''"] l by simp
  then have n: "deployFolder ''#/status/teamA'' \<noteq> []" by simp
  have d: "handleHashChange ''#/status/teamA'' = ViewDeploy"
    using router_view [of "''#/status/teamA''" "''teamA''"] n by blast
  have a: "deployFolder [] = []"
    by (simp add: deployFolder_def matchAt_def or_default_def)
  have b: "deployFolder ''#/status/'' = []"
    by (simp add: deployFolder_def matchAt_def or_default_def)
  have "handleHashChange [] = ViewRepos"
    using router_view [of "[]" "''teamA''"] a by blast
  moreover have "handleHashChange ''#/status/'' = ViewRepos"
    using router_view [of "''#/status/''" "''teamA''"] b by blast
  ultimately show ?thesis using d f by (simp add: handleRepoDetails_def)
qed

text \<open>
  The hash \<^verbatim>\<open>#x#/status/y\<close> is not of the shape \<^verbatim>\<open>#/status/<name>\<close>, and the router shows
  the Deploy page for it, with folder name \<^verbatim>\<open>y\<close>.
\<close>

theorem router_view_counterexample:
  "handleHashChange ''#x#/status/y'' = ViewDeploy \<and> deployFolder ''#x#/status/y'' = ''y'' \<and>
   \<not> statusShaped ''#x#/status/y''"
  by (simp add: handleHashChange_def deployFolder_def or_default_def matchAt_def
      statusShaped_def truthy_def isLineTerminator_def)

subsection \<open>Rendering a repository\<close>

text \<open>
  Claim C6. The repository view of the status contract has a nullable active branch, a
  nullable commit SHA, author, commit message and committed timestamp, a list of (remote
  name, URL) pairs, a list of local branch names and a list of remote branch refs; the
  client renders every such value. A row of the repository list is always produced, the
  call of \<^verbatim>\<open>substring\<close> being guarded, with a dash for each null field; the details table
  of the Deploy page shows nothing for a null field.
\<close>

theorem nullable_fields_render:
  "repoListRow r =
     Inr [folder r, or_default (active_branch r) ''-'', or_default (committed_date_str r) ''-'',
          (case sha r of None \<Rightarrow> ''-'' | Some s \<Rightarrow> if s = [] then ''-'' else take 8 s),
          or_default (author r) ''-''] \<and>
   repoListRow (r\<lparr>active_branch := None, committed_date_str := None, sha := None,
                  author := None, commit_message := None\<rparr>) =
     Inr [folder r, ''-'', ''-'', ''-'', ''-''] \<and>
   repoDetails (r\<lparr>active_branch := None, committed_date_str := None, sha := None,
                  author := None, commit_message := None\<rparr>) =
     \<lparr>git_hash = [], commit_message_cell = [], author_cell = [], committed_cell = [],
      active_branch_cell = [], local_branches_cell = local_branches r,
      remotes_cell = remotes r\<rparr>"
  by (simp add: repoListRow_def repoDetails_def substring_def truthy_opt_def truthy_def
      or_default_def renderChild_def split: option.splits)

theorem nullable_fields_render_witness:
  "repoListRow teamA = Inr [''teamA'', ''main'', ''2025-01-01 10:00:00'', ''01234567'', ''dev''] \<and>
   repoListRow (teamA\<lparr>active_branch := None, committed_date_str := None, sha := None,
                      author := None, commit_message := None\<rparr>) =
     Inr [''teamA'', ''-'', ''-'', ''-'', ''-''] \<and>
   active_branch_cell (repoDetails (teamA\<lparr>active_branch := None, committed_date_str := None,
       sha := None, author := None, commit_message := None\<rparr>)) = []"
  using nullable_fields_render [of teamA]
  by (simp add: teamA_def or_default_def truthy_def)

subsection \<open>The dialog that adds a repository\<close>

lemma modal_invariant:
  "\<not> githubAvailable (modalRun evs) \<longrightarrow> method' (modalRun evs) = ssh"
proof (induction evs rule: rev_induct)
  case Nil
  then show ?case by (simp add: modalRun_def initialAddRepoModal_def)
next
  case (snoc e evs)
  have s: "modalRun (evs @ [e]) = modalStep (modalRun evs) e"
    by (simp add: modalRun_def)
  show ?case
    unfolding s using snoc
    by (cases e)
      (auto simp add: checkGithubAvailability_def clickSshTab_def clickGithubTab_def
        githubTabDisabled_def fetchGithubRepos_def handleGithubRepoSelect_def Let_def
        handleSubmit_def submitDone_def handleClose_def
        split: FetchResult.splits if_splits Method.splits option.splits)
qed

text \<open>
  Claim C7. The availability flag of the probe is true exactly when the app id, the
  private key and the installation id are all present. When the probe answers false, the
  dialog has the GitHub App tab disabled and the SSH method selected, and a click on the
  disabled tab changes nothing; and in every state the dialog reaches in which GitHub is
  not available, the method is SSH and a submit posts to the SSH endpoint only.
\<close>

theorem github_method_needs_settings:
  "(github_available c \<longleftrightarrow>
      gh_app_id c \<noteq> None \<and> gh_app_private_key c \<noteq> None \<and> gh_app_installation_id c \<noteq> None) \<and>
   (\<not> github_available c \<longrightarrow>
      \<not> githubAvailable (checkGithubAvailability True (Response ok code (github_available c)) st) \<and>
      method' (checkGithubAvailability True (Response ok code (github_available c)) st) = ssh \<and>
      githubTabDisabled (checkGithubAvailability True (Response ok code (github_available c)) st) \<and>
      method' (clickGithubTab
        (checkGithubAvailability True (Response ok code (github_available c)) st)) = ssh) \<and>
   (\<not> githubAvailable (modalRun evs) \<longrightarrow>
      method' (modalRun evs) = ssh \<and>
      (\<forall>req. snd (handleSubmit (modalRun evs)) = Some req \<longrightarrow>
         url req = ''/deployment/api/repos/add-ssh''))"
proof (intro conjI)
  show "github_available c \<longleftrightarrow>
      gh_app_id c \<noteq> None \<and> gh_app_private_key c \<noteq> None \<and> gh_app_installation_id c \<noteq> None"
    by (simp add: github_available_def)
next
  show "\<not> github_available c \<longrightarrow>
      \<not> githubAvailable (checkGithubAvailability True (Response ok code (github_available c)) st) \<and>
      method' (checkGithubAvailability True (Response ok code (github_available c)) st) = ssh \<and>
      githubTabDisabled (checkGithubAvailability True (Response ok code (github_available c)) st) \<and>
      method' (clickGithubTab
        (checkGithubAvailability True (Response ok code (github_available c)) st)) = ssh"
    by (simp add: checkGithubAvailability_def githubTabDisabled_def clickGithubTab_def)
next
  show "\<not> githubAvailable (modalRun evs) \<longrightarrow>
      method' (modalRun evs) = ssh \<and>
      (\<forall>req. snd (handleSubmit (modalRun evs)) = Some req \<longrightarrow>
         url req = ''/deployment/api/repos/add-ssh'')"
  proof
    assume "\<not> githubAvailable (modalRun evs)"
    with modal_invariant [of evs] have m: "method' (modalRun evs) = ssh" by simp
    then show "method' (modalRun evs) = ssh \<and>
      (\<forall>req. snd (handleSubmit (modalRun evs)) = Some req \<longrightarrow>
         url req = ''/deployment/api/repos/add-ssh'')"
      by (auto simp add: handleSubmit_def Let_def split: option.splits if_splits)
  qed
qed

theorem github_method_needs_settings_witness:
  "\<not> github_available key_only \<and>
   method' (checkGithubAvailability True (Response True 200 (github_available key_only))
              (initialAddRepoModal\<lparr>githubAvailable := True, method' := github\<rparr>)) = ssh \<and>
   githubTabDisabled (checkGithubAvailability True (Response True 200 (github_available key_only))
              (initialAddRepoModal\<lparr>githubAvailable := True, method' := github\<rparr>)) \<and>
   \<not> githubAvailable
       (modalRun [ProbeAnswered (Response True 200 False), GithubTabClicked,
                  RepoUrlTyped ''git@github.com:org/teamB.git'', FolderNameTyped ''teamB'',
                  KeyFileChosen (Some ''key'')]) \<and>
   snd (handleSubmit
       (modalRun [ProbeAnswered (Response True 200 False), GithubTabClicked,
                  RepoUrlTyped ''git@github.com:org/teamB.git'', FolderNameTyped ''teamB'',
                  KeyFileChosen (Some ''key'')])) =
     Some \<lparr>url = ''/deployment/api/repos/add-ssh'', http_method = POST, headers = [],
           form_data = Some [(''repo_url'', ''git@github.com:org/teamB.git''),
                             (''folder_name'', ''teamB''), (''ssh_key'', ''key'')]\<rparr>"
proof -
  let ?evs = "[ProbeAnswered (Response True 200 False), GithubTabClicked,
                  RepoUrlTyped ''git@github.com:org/teamB.git'', FolderNameTyped ''teamB'',
                  KeyFileChosen (Some ''key'')]"
  have n: "\<not> github_available key_only" by (simp add: github_available_def key_only_def)
  have a: "\<not> githubAvailable (modalRun ?evs)"
    by (simp add: modalRun_def initialAddRepoModal_def checkGithubAvailability_def
        clickGithubTab_def githubTabDisabled_def)
  from github_method_needs_settings
    [of key_only True 200 "initialAddRepoModal\<lparr>githubAvailable := True, method' := github\<rparr>" ?evs]
    n a
  have "method' (checkGithubAvailability True (Response True 200 (github_available key_only))
              (initialAddRepoModal\<lparr>githubAvailable := True, method' := github\<rparr>)) = ssh"
    and "githubTabDisabled (checkGithubAvailability True (Response True 200 (github_available key_only))
              (initialAddRepoModal\<lparr>githubAvailable := True, method' := github\<rparr>))"
    and m: "method' (modalRun ?evs) = ssh"
    by blast+
  moreover have "snd (handleSubmit (modalRun ?evs)) =
     Some \<lparr>url = ''/deployment/api/repos/add-ssh'', http_method = POST, headers = [],
           form_data = Some [(''repo_url'', ''git@github.com:org/teamB.git''),
                             (''folder_name'', ''teamB''), (''ssh_key'', ''key'')]\<rparr>"
    by (simp add: modalRun_def initialAddRepoModal_def checkGithubAvailability_def
        clickGithubTab_def githubTabDisabled_def handleSubmit_def truthy_def)
  ultimately show ?thesis using n a by blast
qed

section \<open>Properties of the server model\<close>

subsection \<open>Provisioning\<close>

lemma add_valid_name_writes:
  "addViaSSH [''dags''] (\<lambda>u. True) ''git@github.com:org/teamB.git'' ''teamB'' ''key'' empty_host =
     (Success (),
      \<lparr>entries = (\<lambda>p. None)([''dags''] \<mapsto> Directory,
                   [''dags'', ''teamB.key''] \<mapsto> RegularFile ''key'' OwnerOnly,
                   [''dags'', ''teamB''] \<mapsto> Directory),
       accesses = [Stat [''dags'', ''teamB''], WriteFile [''dags'', ''teamB.key''],
                   CloneInto [''dags'', ''teamB'']]\<rparr>)"
  by (simp add: addViaSSH_def validate_folder_name_def segments_def is_path_separator_def
      empty_host_def Let_def)

text \<open>
  Claim C1. A folder name that contains a path separator or a \<^verbatim>\<open>..\<close> segment (or two
  dots in a row anywhere) is rejected by both add paths, by the same validation, and the
  host is left as it was: no entry written and no access made, not even a lookup. This
  holds as well for the request the client's dialog submits with such a folder name,
  whichever method is selected.
\<close>

theorem traversal_names_rejected:
  assumes "(\<exists>c\<in>set n. c = CHR ''/'' \<or> c = CHR 0x5C) \<or> ''..'' \<in> set (segments n) \<or>
           contains_dotdot n"
  shows "addViaSSH root clones repo_url n key_bytes host =
           (Rejected ''invalid folder name'', host) \<and>
         addViaGitHubApp root settings accessible clones repo_full_name n host =
           (Rejected ''invalid folder name'', host) \<and>
         (snd (handleSubmit st) = Some req \<and> folderName st = n \<longrightarrow>
            add_repository root settings accessible clones req host =
              (Rejected ''invalid folder name'', host))"
proof -
  from assms have v: "validate_folder_name root n host = (False, host)"
    by (auto simp add: validate_folder_name_def list_ex_iff is_path_separator_def)
  have a: "addViaSSH root clones u n k host = (Rejected ''invalid folder name'', host)" for u k
    by (simp add: addViaSSH_def v)
  have b: "addViaGitHubApp root settings accessible clones f n host =
           (Rejected ''invalid folder name'', host)" for f
    by (simp add: addViaGitHubApp_def v)
  have "add_repository root settings accessible clones req host =
              (Rejected ''invalid folder name'', host)"
    if "snd (handleSubmit st) = Some req" and "folderName st = n"
  proof (cases "method' st")
    case ssh
    with that have
      "url req = ''/deployment/api/repos/add-ssh'' \<and> form_field ''folder_name'' req = n"
      by (auto simp add: handleSubmit_def Let_def form_field_def split: option.splits if_splits)
    then show ?thesis by (simp add: add_repository_def a)
  next
    case github
    with that have
      "url req = ''/deployment/api/repos/add-github'' \<and> form_field ''folder_name'' req = n"
      by (auto simp add: handleSubmit_def Let_def form_field_def split: option.splits if_splits)
    then show ?thesis by (simp add: add_repository_def b)
  qed
  with a b show ?thesis by blast
qed

theorem traversal_names_rejected_witness:
  "addViaSSH [''dags''] (\<lambda>u. True) ''git@github.com:org/x.git'' ''../etc'' ''key'' empty_host =
     (Rejected ''invalid folder name'', empty_host) \<and>
   addViaGitHubApp [''dags''] key_only (Some [''org/x'']) (\<lambda>u. True) ''org/x'' ''../etc''
     empty_host = (Rejected ''invalid folder name'', empty_host) \<and>
   add_repository [''dags''] key_only (Some [''org/x'']) (\<lambda>u. True)
     \<lparr>url = ''/deployment/api/repos/add-ssh'', http_method = POST, headers = [],
      form_data = Some [(''repo_url'', ''git@github.com:org/x.git''),
                        (''folder_name'', ''../etc''), (''ssh_key'', ''key'')]\<rparr>
     empty_host = (Rejected ''invalid folder name'', empty_host)"
proof -
  let ?st = "initialAddRepoModal\<lparr>repoUrl := ''git@github.com:org/x.git'',
      folderName := ''../etc'', sshKeyFile := Some ''key''\<rparr>"
  let ?req = "\<lparr>url = ''/deployment/api/repos/add-ssh'', http_method = POST, headers = [],
      form_data = Some [(''repo_url'', ''git@github.com:org/x.git''),
                        (''folder_name'', ''../etc''), (''ssh_key'', ''key'')]\<rparr>"
  have h: "(\<exists>c\<in>set ''../etc''. c = CHR ''/'' \<or> c = CHR 0x5C) \<or>
      ''..'' \<in> set (segments ''../etc'') \<or> contains_dotdot ''../etc''"
    by simp
  have s: "snd (handleSubmit ?st) = Some ?req \<and> folderName ?st = ''../etc''"
    by (simp add: handleSubmit_def initialAddRepoModal_def truthy_def)
  from traversal_names_rejected [OF h, of "[''dags'']" "\<lambda>u. True" "''git@github.com:org/x.git''"
      "''key''" empty_host key_only "Some [''org/x'']" "''org/x''" ?st ?req] s
  show ?thesis by blast
qed

subsection \<open>Deploy\<close>

lemma deploy_allowed_branch:
  "deploy main_only remote_moved \<lparr>request_folder = ''teamA'', target_branch = ''origin/main''\<rparr>
     teamA_tree =
     (Success (Some ''c3'', []),
      \<lparr>head_branch = Some ''main'', head_sha = Some ''c3'',
       local_tips = [(''main'', ''c3''), (''feature-x'', ''b2'')],
       remote_tips = [(''origin/main'', ''c3''), (''origin/dev'', ''d4'')],
       git_log = [Fetch, Checkout ''main'', ResetHard ''origin/main'']\<rparr>)"
  by (simp add: deploy_def main_only_def parse_allowed_branches_def remote_moved_def
      teamA_tree_def switch_branch_def tracking_branch_def set_tip_def Let_def)

text \<open>
  Claim C2. When a branch allow-list is configured and the target branch of a deploy
  request is not a member of it, the deploy returns \<open>Rejected\<close>, no git command has run
  (the log of commands is as it was) and the HEAD commit of the working tree is unchanged:
  the working tree is the one the deploy was given.
\<close>

theorem disallowed_branch_rejected:
  assumes "allowed_branches policy = Some allowed" and "target_branch req \<notin> set allowed"
  shows "fst (deploy policy world req w) = Rejected ''branch not allowed'' \<and>
         git_log (snd (deploy policy world req w)) = git_log w \<and>
         head_sha (snd (deploy policy world req w)) = head_sha w \<and>
         snd (deploy policy world req w) = w"
  using assms by (simp add: deploy_def)

theorem disallowed_branch_rejected_witness:
  "deploy main_only remote_moved \<lparr>request_folder = ''teamA'', target_branch = ''origin/dev''\<rparr>
     teamA_tree = (Rejected ''branch not allowed'', teamA_tree) \<and>
   head_sha teamA_tree = Some ''a1''"
proof -
  have a: "allowed_branches main_only = Some [''origin/main'']"
    by (simp add: main_only_def parse_allowed_branches_def)
  have b: "target_branch \<lparr>request_folder = ''teamA'', target_branch = ''origin/dev''\<rparr>
      \<notin> set [''origin/main'']"
    by simp
  from disallowed_branch_rejected [OF a b, of remote_moved teamA_tree]
  show ?thesis by (simp add: prod_eq_iff teamA_tree_def)
qed

subsection \<open>Branch cleanup\<close>

lemma delete_branches_effect:
  "delete_branches refused bs w = (ds, w') \<Longrightarrow>
     head_branch w' = head_branch w \<and> head_sha w' = head_sha w \<and>
     remote_tips w' = remote_tips w \<and>
     ds = filter (\<lambda>b. \<not> refused b) bs \<and>
     local_tips w' = filter (\<lambda>p. fst p \<notin> set ds) (local_tips w)"
proof (induction bs arbitrary: w ds w')
  case Nil
  then show ?case by simp
next
  case (Cons b bs)
  show ?case
  proof (cases "refused b")
    case True
    with Cons.prems have
      "delete_branches refused bs (w\<lparr>git_log := git_log w @ [DeleteBranch b]\<rparr>) = (ds, w')"
      by simp
    from Cons.IH [OF this] True show ?thesis by simp
  next
    case False
    let ?w1 = "w\<lparr>local_tips := filter (\<lambda>p. fst p \<noteq> b) (local_tips w),
                 git_log := git_log w @ [DeleteBranch b]\<rparr>"
    obtain ds1 w1 where r: "delete_branches refused bs ?w1 = (ds1, w1)"
      by (cases "delete_branches refused bs ?w1") blast
    with Cons.prems False have e: "ds = b # ds1" "w' = w1" by simp_all
    from Cons.IH [OF r] e False show ?thesis by (auto intro!: filter_cong)
  qed
qed

text \<open>
  Claim C3. A cleanup returns the local branches it deleted together with the active
  branch. The active branch and the HEAD commit are those at the time of the call, the
  active branch is not among the deleted ones, and the deleted ones are exactly the local
  branches that are gone afterwards: every local branch but the active one that git did
  not refuse to delete.
\<close>

theorem cleanup_keeps_active_branch:
  assumes "cleanup refused w = ((deleted, active), w')"
  shows "active = head_branch w \<and> head_branch w' = head_branch w \<and> head_sha w' = head_sha w \<and>
         (\<forall>b. head_branch w = Some b \<longrightarrow> b \<notin> set deleted) \<and>
         deleted =
           filter (\<lambda>b. Some b \<noteq> head_branch w \<and> \<not> refused b) (map fst (local_tips w)) \<and>
         local_tips w' = filter (\<lambda>p. fst p \<notin> set deleted) (local_tips w) \<and>
         set deleted = fst ` set (local_tips w) - fst ` set (local_tips w')"
proof -
  let ?cands = "filter (\<lambda>b. Some b \<noteq> head_branch w) (map fst (local_tips w))"
  from assms have d: "delete_branches refused ?cands w = (deleted, w')"
    and a: "active = head_branch w'"
    by (auto simp add: cleanup_def split: prod.splits)
  note e = delete_branches_effect [OF d]
  from e have hb: "head_branch w' = head_branch w" and hs: "head_sha w' = head_sha w"
    by simp_all
  from a hb have ab: "active = head_branch w" by simp
  from e have f: "deleted =
      filter (\<lambda>b. Some b \<noteq> head_branch w \<and> \<not> refused b) (map fst (local_tips w))"
    by (simp add: conj_commute)
  from e have l: "local_tips w' = filter (\<lambda>p. fst p \<notin> set deleted) (local_tips w)" by simp
  have s: "set deleted \<subseteq> fst ` set (local_tips w)" unfolding f by auto
  have "fst ` set (local_tips w') = fst ` set (local_tips w) - set deleted"
    unfolding l by auto
  with s have sd: "set deleted = fst ` set (local_tips w) - fst ` set (local_tips w')" by auto
  have na: "\<forall>b. head_branch w = Some b \<longrightarrow> b \<notin> set deleted" unfolding f by auto
  show ?thesis by (intro conjI; fact)
qed

theorem cleanup_keeps_active_branch_witness:
  "cleanup (\<lambda>b. False) teamA_tree =
     (([''feature-x''], Some ''main''),
      teamA_tree\<lparr>local_tips := [(''main'', ''a1'')], git_log := [DeleteBranch ''feature-x'']\<rparr>) \<and>
   Some ''main'' = head_branch teamA_tree \<and>
   ''main'' \<notin> set [''feature-x''] \<and>
   set [''feature-x''] = fst ` set (local_tips teamA_tree) - fst ` set [(''main'', ''a1'')]"
proof -
  let ?w' = "teamA_tree\<lparr>local_tips := [(''main'', ''a1'')],
      git_log := [DeleteBranch ''feature-x'']\<rparr>"
  have c: "cleanup (\<lambda>b. False) teamA_tree = (([''feature-x''], Some ''main''), ?w')"
    by (simp add: cleanup_def teamA_tree_def)
  from cleanup_keeps_active_branch [OF c]
  have "Some ''main'' = head_branch teamA_tree"
    and "\<forall>b. head_branch teamA_tree = Some b \<longrightarrow> b \<notin> set [''feature-x'']"
    and "set [''feature-x''] = fst ` set (local_tips teamA_tree) - fst ` set (local_tips ?w')"
    by blast+
  with c show ?thesis by simp
qed

subsection \<open>The inventory scan\<close>

lemma scan_folders:
  "map folder (fst (scan remote dirs)) = map fst (filter (\<lambda>p. snd p \<noteq> NotARepository) dirs)"
  by (induction remote dirs rule: scan.induct) (auto split: prod.splits sum.splits)

lemma scan_errors:
  "snd (scan remote dirs) =
     map (\<lambda>p. \<lparr>error_folder = fst p, error_message = projl (remote (fst p))\<rparr>)
       (filter (\<lambda>p. snd p \<noteq> NotARepository \<and> isl (remote (fst p))) dirs)"
  by (induction remote dirs rule: scan.induct) (auto split: prod.splits sum.splits)

lemma scan_local_data:
  "map (\<lambda>r. r\<lparr>remote_branches := []\<rparr>) (fst (scan remote dirs)) =
   map (\<lambda>r. r\<lparr>remote_branches := []\<rparr>) (fst (scan (\<lambda>n. Inr []) dirs))"
  by (induction remote dirs rule: scan.induct) (auto split: prod.splits sum.splits)

lemma scan_find:
  "distinct (map fst dirs) \<Longrightarrow> (n, GitRepository r) \<in> set dirs \<Longrightarrow>
     find (\<lambda>x. folder x = n) (fst (scan remote dirs)) =
       Some (r\<lparr>folder := n,
               remote_branches := (case remote n of Inl err \<Rightarrow> [] | Inr refs \<Rightarrow> refs)\<rparr>)"
proof (induction remote dirs rule: scan.induct)
  case (1 remote)
  then show ?case by simp
next
  case (2 remote m dirs)
  then show ?case by auto
next
  case (3 remote m r' dirs)
  show ?case
  proof (cases "m = n")
    case True
    with "3.prems" have "r' = r" by (auto simp add: rev_image_eqI)
    with True show ?thesis by (auto split: prod.splits sum.splits)
  next
    case False
    with "3.prems" have "distinct (map fst dirs)" "(n, GitRepository r) \<in> set dirs" by auto
    from "3.IH" [OF this] False show ?thesis by (auto split: prod.splits sum.splits)
  qed
qed

lemma scan_errors_of:
  "distinct (map fst dirs) \<Longrightarrow> (n, GitRepository r) \<in> set dirs \<Longrightarrow> remote n = Inl err \<Longrightarrow>
     map error_message (filter (\<lambda>e. error_folder e = n) (snd (scan remote dirs))) = [err]"
proof (induction remote dirs rule: scan.induct)
  case (1 remote)
  then show ?case by simp
next
  case (2 remote m dirs)
  then show ?case by auto
next
  case (3 remote m r' dirs)
  show ?case
  proof (cases "m = n")
    case True
    with "3.prems" have "n \<notin> fst ` set dirs" by auto
    then have "filter (\<lambda>e. error_folder e = n) (snd (scan remote dirs)) = []"
      unfolding scan_errors by (force simp add: filter_empty_conv)
    with True "3.prems" show ?thesis by (auto split: prod.splits sum.splits)
  next
    case False
    with "3.prems" have "distinct (map fst dirs)" "(n, GitRepository r) \<in> set dirs" by auto
    from "3.IH" [OF this "3.prems"(3)] False show ?thesis
      by (auto split: prod.splits sum.splits)
  qed
qed

text \<open>
  Claim C4. A scan lists every subdirectory that is a git repository, whatever the
  remotes answer: a network failure aborts nothing. The errors of the scan are exactly
  the failures of the remote listing, one for each repository whose remote failed, under
  its folder; but for the remote branches, the entries of the repositories are the ones
  of a scan without failures. The status of a repository whose remote failed is its entry
  with its local data, together with that error. On the client, a status with errors
  still opens the Deploy page with the data and with the Deploy button live for a
  non-empty initial branch, the errors being shown when one of them is not blank.
\<close>

theorem scan_collects_network_failures:
  "map folder (fst (scan remote dirs)) = map fst (filter (\<lambda>p. snd p \<noteq> NotARepository) dirs) \<and>
   snd (scan remote dirs) =
     map (\<lambda>p. \<lparr>error_folder = fst p, error_message = projl (remote (fst p))\<rparr>)
       (filter (\<lambda>p. snd p \<noteq> NotARepository \<and> isl (remote (fst p))) dirs) \<and>
   map (\<lambda>r. r\<lparr>remote_branches := []\<rparr>) (fst (scan remote dirs)) =
     map (\<lambda>r. r\<lparr>remote_branches := []\<rparr>) (fst (scan (\<lambda>n. Inr []) dirs)) \<and>
   (distinct (map fst dirs) \<and> (n, GitRepository r) \<in> set dirs \<and> remote n = Inl err \<longrightarrow>
      repository_status remote dirs n = Some (r\<lparr>folder := n, remote_branches := []\<rparr>, [err])) \<and>
   (fld \<noteq> [] \<longrightarrow>
      deployScreen (fetchDeployData fld (Response True code d) initialDeployState) = MainScreen \<and>
      data (fetchDeployData fld (Response True code d) initialDeployState) = Some d \<and>
      (initialBranch (form d) \<noteq> [] \<longrightarrow>
         snd (clickDeploy fld (fetchDeployData fld (Response True code d) initialDeployState))
           \<noteq> None)) \<and>
   (showFetchErrors d \<longleftrightarrow> (\<exists>es. errors d = Some es \<and> (\<exists>e\<in>set es. trim e \<noteq> [])))"
proof (intro conjI)
  show "distinct (map fst dirs) \<and> (n, GitRepository r) \<in> set dirs \<and> remote n = Inl err \<longrightarrow>
      repository_status remote dirs n = Some (r\<lparr>folder := n, remote_branches := []\<rparr>, [err])"
  proof
    assume a: "distinct (map fst dirs) \<and> (n, GitRepository r) \<in> set dirs \<and> remote n = Inl err"
    then have "find (\<lambda>x. folder x = n) (fst (scan remote dirs)) =
        Some (r\<lparr>folder := n, remote_branches := []\<rparr>)"
      using scan_find [of dirs n r remote] by simp
    moreover from a have
      "map error_message (filter (\<lambda>e. error_folder e = n) (snd (scan remote dirs))) = [err]"
      using scan_errors_of [of dirs n r remote err] by simp
    ultimately show "repository_status remote dirs n =
        Some (r\<lparr>folder := n, remote_branches := []\<rparr>, [err])"
      by (simp add: repository_status_def case_prod_beta)
  qed
next
  show "fld \<noteq> [] \<longrightarrow>
      deployScreen (fetchDeployData fld (Response True code d) initialDeployState) = MainScreen \<and>
      data (fetchDeployData fld (Response True code d) initialDeployState) = Some d \<and>
      (initialBranch (form d) \<noteq> [] \<longrightarrow>
         snd (clickDeploy fld (fetchDeployData fld (Response True code d) initialDeployState))
           \<noteq> None)"
    by (simp add: fetchDeployData_def truthy_def initialDeployState_def deployScreen_def
        truthy_opt_def clickDeploy_def deployButtonDisabled_def handleDeploy_def)
next
  show "showFetchErrors d \<longleftrightarrow> (\<exists>es. errors d = Some es \<and> (\<exists>e\<in>set es. trim e \<noteq> []))"
    by (auto simp add: showFetchErrors_def truthy_def list_ex_iff split: option.splits)
qed (rule scan_folders scan_errors scan_local_data)+

theorem scan_collects_network_failures_witness:
  "map folder (fst (scan teamC_unreachable dags_root)) = [''teamA'', ''teamC''] \<and>
   snd (scan teamC_unreachable dags_root) =
     [\<lparr>error_folder = ''teamC'', error_message = ''Could not resolve host: github.com''\<rparr>] \<and>
   repository_status teamC_unreachable dags_root ''teamC'' =
     Some (teamC, [''Could not resolve host: github.com'']) \<and>
   deployScreen (fetchDeployData ''teamC'' (Response True 200 teamC_page) initialDeployState) =
     MainScreen \<and>
   snd (clickDeploy ''teamC''
          (fetchDeployData ''teamC'' (Response True 200 teamC_page) initialDeployState)) \<noteq> None \<and>
   showFetchErrors teamC_page"
proof -
  have a: "distinct (map fst dags_root) \<and> (''teamC'', GitRepository teamC) \<in> set dags_root \<and>
      teamC_unreachable ''teamC'' = Inl ''Could not resolve host: github.com''"
    by (simp add: dags_root_def teamC_unreachable_def)
  have b: "initialBranch (form teamC_page) \<noteq> []"
    by (simp add: teamC_page_def initialBranch_def)
  have c: "\<exists>es. errors teamC_page = Some es \<and> (\<exists>e\<in>set es. trim e \<noteq> [])"
    by (simp add: teamC_page_def trim_def isWhiteSpace_def)
  have d: "teamC\<lparr>folder := ''teamC'', remote_branches := []\<rparr> = teamC"
    by (simp add: teamC_def)
  from scan_collects_network_failures
    [of teamC_unreachable dags_root "''teamC''" teamC "''Could not resolve host: github.com''"
      "''teamC''" 200 teamC_page] a b c
  have "map folder (fst (scan teamC_unreachable dags_root)) =
      map fst (filter (\<lambda>p. snd p \<noteq> NotARepository) dags_root)"
    and "snd (scan teamC_unreachable dags_root) =
      map (\<lambda>p. \<lparr>error_folder = fst p, error_message = projl (teamC_unreachable (fst p))\<rparr>)
        (filter (\<lambda>p. snd p \<noteq> NotARepository \<and> isl (teamC_unreachable (fst p))) dags_root)"
    and "repository_status teamC_unreachable dags_root ''teamC'' =
      Some (teamC\<lparr>folder := ''teamC'', remote_branches := []\<rparr>,
            [''Could not resolve host: github.com''])"
    and "deployScreen (fetchDeployData ''teamC'' (Response True 200 teamC_page) initialDeployState) =
      MainScreen"
    and "snd (clickDeploy ''teamC''
          (fetchDeployData ''teamC'' (Response True 200 teamC_page) initialDeployState)) \<noteq> None"
    and "showFetchErrors teamC_page"
    by simp_all
  then show ?thesis
    unfolding d by (simp add: dags_root_def teamC_unreachable_def)
qed

end
